theory Spec2Isabelle
  imports Complex_Main
begin

section \<open>Data model\<close>

text \<open>
  A pandas DataFrame is kept as its column labels and its rows, each row the list of its
  cells in column order. The cell type is left open: the uploaded files give typed cells,
  the cloud loader gives text cells.
\<close>

record 'c dataframe =
  columns :: "string list"
  rows :: "'c list list"

text \<open>The exceptions the modelled code can raise, as values.\<close>

datatype error =
    StopIteration
  | IndexError
  | KeyError
  | TypeError
  | NotFound
  | Forbidden
  | ReadError
  | EngineError
  | NotAContextManager

section \<open>Cost estimator: \<open>calculate_cost\<close>\<close>

text \<open>
  \<^verbatim>\<open>' '.join(xs)\<close>: the elements with the separator between neighbours, nothing before the
  first or after the last.
\<close>

fun str_join :: "string \<Rightarrow> string list \<Rightarrow> string" where
  "str_join sep [] = []"
| "str_join sep [x] = x"
| "str_join sep (x # y # ys) = x @ sep @ str_join sep (y # ys)"

text \<open>
  Python's \<^verbatim>\<open>sum\<close> over an iterable: an accumulator that starts at 0 and takes each
  element in turn.
\<close>

fun py_sum_from :: "nat \<Rightarrow> nat list \<Rightarrow> nat" where
  "py_sum_from acc [] = acc"
| "py_sum_from acc (n # ns) = py_sum_from (acc + n) ns"

definition py_sum :: "nat list \<Rightarrow> nat" where
  "py_sum ns = py_sum_from 0 ns"

text \<open>
  \<^verbatim>\<open>df.iterrows()\<close> yields the rows in order; \<^verbatim>\<open>row.values\<close> is the row's cells in column
  order, as the row holds them.
\<close>

definition iterrows :: "'c dataframe \<Rightarrow> 'c list list" where
  "iterrows df = rows df"

text \<open>
  The tokenizer \<^verbatim>\<open>tiktoken.encoding_for_model("gpt-3.5-turbo")\<close> and the conversion
  \<^verbatim>\<open>astype(str)\<close> of a cell belong to libraries outside the repository: they are the
  parameters \<open>encode\<close> and \<open>astype_str\<close>.
\<close>

definition cost_per_token :: real where
  "cost_per_token = 0.0005"

definition total_tokens :: "(string \<Rightarrow> 'tok list) \<Rightarrow> ('c \<Rightarrow> string) \<Rightarrow> 'c dataframe \<Rightarrow> nat" where
  "total_tokens encode astype_str df =
     py_sum (map (\<lambda>row. length (encode (str_join '' '' (map astype_str row)))) (iterrows df))"

text \<open>
  What \<open>calculate_cost\<close> shows: two \<^verbatim>\<open>st.write\<close> calls, the token count and the cost.
  The cost is the source's expression \<^verbatim>\<open>total_tokens * cost_per_token / 1000\<close> over the
  reals (the rounding of Python's floats is left out).
\<close>

datatype cost_report = WriteTokens nat | WriteCost real

definition calculate_cost ::
  "(string \<Rightarrow> 'tok list) \<Rightarrow> ('c \<Rightarrow> string) \<Rightarrow> 'c dataframe \<Rightarrow> cost_report list" where
  "calculate_cost encode astype_str df =
     (let total = total_tokens encode astype_str df
      in [WriteTokens total, WriteCost (real total * cost_per_token / 1000)])"





section \<open>Cloud loader: \<open>write_read\<close>\<close>

text \<open>
  A Python dict keeps its keys in insertion order: storing under a key already present
  replaces the value where the key stands, storing under a new key appends.
\<close>

type_synonym 'v pydict = "(string \<times> 'v) list"

fun dict_set :: "'v pydict \<Rightarrow> string \<Rightarrow> 'v \<Rightarrow> 'v pydict" where
  "dict_set [] k v = [(k, v)]"
| "dict_set ((k', v') # d) k v =
     (if k' = k then (k', v) # d else (k', v') # dict_set d k v)"

text \<open>
  The dict comprehension \<^verbatim>\<open>{header[i]: row[i] for i in range(len(header))}\<close>, as the loop
  over the indices it is: \<^verbatim>\<open>header[i]\<close> and \<^verbatim>\<open>row[i]\<close> raise IndexError out of range.
\<close>

fun record_from :: "string list \<Rightarrow> string list \<Rightarrow> nat list \<Rightarrow> string pydict \<Rightarrow> error + string pydict" where
  "record_from header row [] d = Inr d"
| "record_from header row (i # is) d =
     (if i < length header
      then (if i < length row
            then record_from header row is (dict_set d (header ! i) (row ! i))
            else Inl IndexError)
      else Inl IndexError)"

definition row_record :: "string list \<Rightarrow> string list \<Rightarrow> error + string pydict" where
  "row_record header row = record_from header row [0..<length header] []"

text \<open>The list comprehension over \<^verbatim>\<open>data\<close>: the rows in order, the first exception ends it.\<close>

fun row_records :: "string list \<Rightarrow> string list list \<Rightarrow> error + string pydict list" where
  "row_records header [] = Inr []"
| "row_records header (row # data) =
     (case row_record header row of
        Inl e \<Rightarrow> Inl e
      | Inr d \<Rightarrow> (case row_records header data of
                   Inl e \<Rightarrow> Inl e
                 | Inr ds \<Rightarrow> Inr (d # ds)))"

text \<open>
  \<^verbatim>\<open>pd.DataFrame(records)\<close> on a list of dicts belongs to pandas. Its behaviour as used
  here: the columns are the keys of the records in order of first appearance, there is one
  row per record, and a record without a column's key has NaN there. A list of no records
  gives a frame with no columns and no rows.
\<close>

datatype cell = Text string | NaN

fun add_keys :: "string list \<Rightarrow> string list \<Rightarrow> string list" where
  "add_keys acc [] = acc"
| "add_keys acc (k # ks) = add_keys (if k \<in> set acc then acc else acc @ [k]) ks"

fun all_keys :: "string list \<Rightarrow> string pydict list \<Rightarrow> string list" where
  "all_keys acc [] = acc"
| "all_keys acc (d # ds) = all_keys (add_keys acc (map fst d)) ds"

definition record_row :: "string list \<Rightarrow> string pydict \<Rightarrow> cell list" where
  "record_row cols d = map (\<lambda>c. case map_of d c of None \<Rightarrow> NaN | Some v \<Rightarrow> Text v) cols"

definition DataFrame :: "string pydict list \<Rightarrow> cell dataframe" where
  "DataFrame records =
     (let cols = all_keys [] records
      in \<lparr>columns = cols, rows = map (record_row cols) records\<rparr>)"

text \<open>
  The storage client, the blob's text stream and \<^verbatim>\<open>csv.reader\<close> are outside the
  repository. Together they are the parameter \<open>storage\<close>: for a project (the value of
  the environment variable, None when unset), a bucket name and a blob name, either the
  exception raised while opening or reading, or the rows the reader yields, each a list of
  fields.
\<close>

type_synonym storage = "string option \<Rightarrow> string \<Rightarrow> string \<Rightarrow> error + string list list"

definition write_read :: "storage \<Rightarrow> string \<Rightarrow> string \<Rightarrow> string option \<Rightarrow> error + cell dataframe" where
  "write_read storage bucket_name blob_name projectid =
     (case storage projectid bucket_name blob_name of
        Inl e \<Rightarrow> Inl e
      | Inr [] \<Rightarrow> Inl StopIteration
      | Inr (header # data) \<Rightarrow>
          (case row_records header data of
             Inl e \<Rightarrow> Inl e
           | Inr records \<Rightarrow> Inr (DataFrame records)))"

text \<open>
  A store with a single blob, for concrete runs: every other bucket or blob name is
  answered with the client's not-found exception.
\<close>

definition one_blob :: "string \<Rightarrow> string \<Rightarrow> string list list \<Rightarrow> storage" where
  "one_blob bucket blob csv_rows projectid bucket_name blob_name =
     (if bucket_name = bucket \<and> blob_name = blob then Inr csv_rows else Inl NotFound)"

section \<open>Response renderer: \<open>OutputParser.parse\<close>\<close>

text \<open>
  The result handed to the parser is a dict read at the keys \<^verbatim>\<open>'type'\<close> and \<^verbatim>\<open>'value'\<close>; a
  value in it is a string or some other object. Reading a missing key raises KeyError.
  The three Streamlit calls are the renderer's effects.
\<close>

datatype 'v pyval = Str string | Obj 'v

datatype 'v st_call = StDataframe "'v pyval" | StImage "'v pyval" | StWrite "'v pyval"

definition subscript :: "(string \<rightharpoonup> 'v pyval) \<Rightarrow> string \<Rightarrow> error + 'v pyval" where
  "subscript d k = (case d k of None \<Rightarrow> Inl KeyError | Some v \<Rightarrow> Inr v)"

definition parse :: "(string \<rightharpoonup> 'v pyval) \<Rightarrow> error + 'v st_call list" where
  "parse result =
     (case subscript result ''type'' of
        Inl e \<Rightarrow> Inl e
      | Inr t \<Rightarrow>
          if t = Str ''dataframe''
          then (case subscript result ''value'' of Inl e \<Rightarrow> Inl e | Inr v \<Rightarrow> Inr [StDataframe v])
          else if t = Str ''plot''
          then (case subscript result ''value'' of Inl e \<Rightarrow> Inl e | Inr v \<Rightarrow> Inr [StImage v])
          else (case subscript result ''value'' of Inl e \<Rightarrow> Inl e | Inr v \<Rightarrow> Inr [StWrite v]))"

section \<open>The page: \<open>main\<close>\<close>

subsection \<open>The engine and its configuration\<close>

datatype llm = OpenAI "string option" | GoogleGemini "string option"

datatype response_parser = OutputParser

datatype config_value = Flag bool | Backend llm | Parser response_parser

datatype 'c connector = PandasConnector "'c dataframe" string | YahooFinanceConnector string

text \<open>
  \<^verbatim>\<open>SmartDataframe(df, name, description, custom_head, config)\<close> is the engine's
  constructor, of the library outside the repository: its second positional parameter is
  \<open>name\<close>, its options are read from \<open>config\<close>. The record keeps what a call passes.
\<close>

record 'c smart_dataframe =
  connector :: "'c connector"
  name :: "config_value pydict option"
  config :: "config_value pydict"

definition SmartDataframe ::
  "'c connector \<Rightarrow> config_value pydict option \<Rightarrow> config_value pydict \<Rightarrow> 'c smart_dataframe" where
  "SmartDataframe conn nm cfg = \<lparr>connector = conn, name = nm, config = cfg\<rparr>"

text \<open>
  The engine's cache switch: the library reads \<^verbatim>\<open>enable_cache\<close> from the config and
  caches unless it is there and false.
\<close>

definition cache_enabled :: "'c smart_dataframe \<Rightarrow> bool" where
  "cache_enabled sdf =
     (case map_of (config sdf) ''enable_cache'' of Some (Flag b) \<Rightarrow> b | _ \<Rightarrow> True)"

text \<open>What one \<^verbatim>\<open>chat\<close> call gives back: the response, the code the engine ran, and
  what the usage callback counted for the call.\<close>

record usage =
  tokens_used :: nat
  dollar_cost :: real

record reply =
  response :: string
  last_code_executed :: string
  call_usage :: usage

subsection \<open>Inputs of one run\<close>

text \<open>
  One run of the script reads the widgets' current values, the environment variables and
  the answers of the outside services. They are the fields of this record: \<open>dataset\<close> is
  the uploaded file's name (None when nothing is uploaded), \<open>read_csv\<close> and \<open>read_excel\<close>
  are what the pandas readers do on the upload, \<open>chat\<close> is the engine, \<open>tokenizer\<close> and
  \<open>cell_text\<close> are the tokenizer and the cells' conversion to text.
\<close>

record 'c world =
  tokenizer :: "string \<Rightarrow> int list"
  cell_text :: "'c \<Rightarrow> string"
  task :: string
  dataset :: "string option"
  read_csv :: "error + 'c dataframe"
  read_excel :: "error + 'c dataframe"
  col_desc :: string
  description :: string
  llm_choice :: string
  prompt :: string
  OPENAI_API_KEY :: "string option"
  GOOGLE_API_KEY :: "string option"
  projectid :: "string option"
  chat :: "'c smart_dataframe \<Rightarrow> string \<Rightarrow> error + reply"
  bucket_name :: string
  blob_name :: string
  gcs :: storage
  stock_symbol :: string
  yahoo_prompt :: string

subsection \<open>Effects and outcomes\<close>

text \<open>
  The calls a run makes, in order. A run ends by reaching the end of \<open>main\<close>, by
  \<^verbatim>\<open>st.stop()\<close>, or by an exception that leaves \<open>main\<close>.
\<close>

datatype 'c event =
    Header string
  | Markdown
  | SidebarHeader string
  | SidebarRadio string
  | FileUploader
  | ErrorBox error
  | Cost cost_report
  | Write string
  | Dataframe "'c dataframe"
  | Radio string
  | TextInput string
  | Construct "'c smart_dataframe"
  | OpenAICallback
  | EngineChat "'c smart_dataframe" string
  | Divider
  | Code string
  | WriteUsage usage

datatype outcome = Done | Stopped | Raised error

type_synonym 'c run = "'c event list \<times> outcome"

definition then_run :: "'c event list \<Rightarrow> 'c run \<Rightarrow> 'c run" where
  "then_run evs r = (evs @ fst r, snd r)"

subsection \<open>String helpers\<close>

definition startswith :: "string \<Rightarrow> string \<Rightarrow> bool" where
  "startswith s p = (take (length p) s = p)"

text \<open>\<^verbatim>\<open>lower()\<close> on the letters A to Z; other characters cannot become those of "csv".\<close>

definition ascii_lower :: "char \<Rightarrow> char" where
  "ascii_lower c =
     (case map_of (zip ''ABCDEFGHIJKLMNOPQRSTUVWXYZ'' ''abcdefghijklmnopqrstuvwxyz'') c of
        Some l \<Rightarrow> l
      | None \<Rightarrow> c)"

text \<open>\<^verbatim>\<open>name.split(".")[-1].lower()\<close>: what follows the last dot, or the whole name.\<close>

definition file_extension :: "string \<Rightarrow> string" where
  "file_extension nm = map ascii_lower (rev (takeWhile (\<lambda>c. c \<noteq> CHR ''.'') (rev nm)))"

text \<open>\<^verbatim>\<open>df.head()\<close>: the first five rows.\<close>

definition head :: "'c dataframe \<Rightarrow> 'c dataframe" where
  "head df = df\<lparr>rows := take 5 (rows df)\<rparr>"

subsection \<open>The flows\<close>

text \<open>
  The source's \<^verbatim>\<open>setup\<close> (here \<open>setup_page\<close>), \<open>get_tasks\<close> and \<open>get_llm\<close>: the page header
  and the style block, the task selector, the backend selector.
\<close>

definition setup_page :: "'c event list" where
  "setup_page = [Header ''Chat with your small and large datasets!'', Markdown]"

definition get_tasks :: "'c event list" where
  "get_tasks = [SidebarHeader ''Select a task'', SidebarRadio ''Choose one:'']"

definition get_llm :: "'c event list" where
  "get_llm = [SidebarHeader ''Select an LLM'', SidebarRadio ''Choose a LLM:'']"

text \<open>
  Lines 99 to 109, the dispatch. Line 100,
  \<^verbatim>\<open>with get_openai_callback() as cb if llm_choice == "OpenAI" else None:\<close>,
  is not a well-formed \<^verbatim>\<open>with\<close> statement: the target after \<^verbatim>\<open>as\<close> cannot be
  followed by a conditional, and Python rejects the file with a SyntaxError. The model
  reads the line with the one bracketing that makes it a statement,
  \<^verbatim>\<open>with (get_openai_callback() if llm_choice == "OpenAI" else None) as cb:\<close>.
  Then for OpenAI the body runs inside the callback, and \<open>cb\<close> is the callback object
  (true in the \<^verbatim>\<open>if cb\<close> of line 106); for any other choice the context expression is
  None, entering it raises, and the body does not run. Nothing in these lines catches an
  exception of \<^verbatim>\<open>sdf.chat\<close>. The labels are written without their emoji.
\<close>

definition dispatch :: "'c world \<Rightarrow> 'c smart_dataframe \<Rightarrow> 'c run" where
  "dispatch w sdf =
     then_run [Write ''Response'']
       (if llm_choice w = ''OpenAI''
        then then_run [OpenAICallback, EngineChat sdf (prompt w)]
          (case chat w sdf (prompt w) of
             Inl e \<Rightarrow> ([], Raised e)
           | Inr r \<Rightarrow>
               ([Write (response r), Divider,
                 Write ''Under the hood, the code that was executed:'',
                 Code (last_code_executed r),
                 Divider, Write ''Tokens used and your cost:'', WriteUsage (call_usage r)],
                Done))
        else ([], Raised NotAContextManager))"

text \<open>
  Lines 92 to 95: the backend object and the engine. The dict \<^verbatim>\<open>{"enable_cache": False}\<close>
  is the call's second positional argument; the keyword \<^verbatim>\<open>config\<close> holds the other three
  settings. The constructors of the library are taken to return.
\<close>

definition build_engine :: "'c world \<Rightarrow> 'c dataframe \<Rightarrow> string \<Rightarrow> 'c smart_dataframe" where
  "build_engine w df addon =
     (let llm = (if llm_choice w = ''OpenAI'' then OpenAI (OPENAI_API_KEY w)
                 else GoogleGemini (GOOGLE_API_KEY w))
      in SmartDataframe (PandasConnector df addon)
           (Some [(''enable_cache'', Flag False)])
           [(''llm'', Backend llm), (''conversational'', Flag False),
            (''response_parser'', Parser OutputParser)])"

text \<open>Lines 91 to 97: backend selection, the engine's construction, the prompt.\<close>

definition query_flow :: "'c world \<Rightarrow> 'c dataframe \<Rightarrow> string \<Rightarrow> 'c run" where
  "query_flow w df addon =
     (let sdf = build_engine w df addon
      in then_run (get_llm @ [Construct sdf, TextInput ''Enter your question/prompt.''])
           (if prompt w = [] then ([], Stopped) else dispatch w sdf))"

text \<open>Lines 87 to 90: the column descriptors and the test \<^verbatim>\<open>if addon\<close>.\<close>

definition describe_flow :: "'c world \<Rightarrow> 'c dataframe \<Rightarrow> 'c run" where
  "describe_flow w df =
     then_run [Radio ''Do you want to provide column descriptors?'']
       (if col_desc w = ''Yes''
        then then_run [TextInput ''Enter your column description (e.g., 'col1': 'unique id')'']
               (if description w \<noteq> [] then query_flow w df (description w) else ([], Done))
        else query_flow w df ''None'')"

text \<open>Lines 73 to 85: the upload, the readers inside \<^verbatim>\<open>try\<close>, the cost and the preview.\<close>

definition local_flow :: "'c world \<Rightarrow> 'c run" where
  "local_flow w =
     then_run [FileUploader]
       (case dataset w of
          None \<Rightarrow> ([], Stopped)
        | Some nm \<Rightarrow>
            (case (if file_extension nm = ''csv'' then read_csv w else read_excel w) of
               Inl e \<Rightarrow> ([ErrorBox e], Stopped)
             | Inr df \<Rightarrow>
                 then_run
                   (map Cost (calculate_cost (tokenizer w) (cell_text w) df) @
                    [Write ''Data Preview:'', Dataframe (head df)])
                   (describe_flow w df)))"

text \<open>Lines 112 to 117: the cloud loader, called with no handler around it.\<close>

definition cloud_flow :: "cell world \<Rightarrow> cell run" where
  "cloud_flow w =
     then_run [TextInput ''Provide your Google Cloud Storage bucket name'',
               TextInput ''Provide the blob/object name'']
       (if bucket_name w = [] \<or> blob_name w = [] then ([], Stopped)
        else (case write_read (gcs w) (bucket_name w) (blob_name w) (projectid w) of
                Inl e \<Rightarrow> ([], Raised e)
              | Inr df_bq \<Rightarrow> ([Write ''Data Preview:'', Dataframe (head df_bq)], Done)))"

text \<open>Lines 120 to 128: the finance feed.\<close>

definition yahoo_flow :: "'c world \<Rightarrow> 'c run" where
  "yahoo_flow w =
     then_run [TextInput ''Enter a stock symbol (e.g., MSFT)'']
       (if stock_symbol w = [] then ([], Stopped)
        else (let yahoo_df = SmartDataframe (YahooFinanceConnector (stock_symbol w)) None
                               [(''response_parser'', Parser OutputParser)]
              in then_run [Construct yahoo_df, TextInput ''Enter your prompt'']
                   (if yahoo_prompt w = [] then ([], Stopped)
                    else then_run [Write ''Response'', EngineChat yahoo_df (yahoo_prompt w)]
                           (case chat w yahoo_df (yahoo_prompt w) of
                              Inl e \<Rightarrow> ([], Raised e)
                            | Inr r \<Rightarrow> ([Divider, Code (last_code_executed r)], Done)))))"

definition main :: "cell world \<Rightarrow> cell run" where
  "main w =
     then_run (setup_page @ get_tasks)
       (if startswith (task w) ''Load from local drive'' then local_flow w
        else if task w = ''Load from Google Storage'' then cloud_flow w
        else if task w = ''Yahoo Finance'' then yahoo_flow w
        else ([], Done))"

subsection \<open>A concrete run\<close>

text \<open>
  Inputs for concrete runs. The tokenizer here gives one token per character and stands in
  for the real one; \<open>cell_str\<close> is \<^verbatim>\<open>astype(str)\<close> on the loader's cells. In \<open>demo_world\<close>
  the user uploads \<open>data.csv\<close> with two rows, gives no column descriptors, picks OpenAI
  and asks a question that the engine answers.
\<close>

definition char_tokens :: "string \<Rightarrow> int list" where
  "char_tokens s = map (\<lambda>c. int (of_char c)) s"

definition cell_str :: "cell \<Rightarrow> string" where
  "cell_str c = (case c of Text s \<Rightarrow> s | NaN \<Rightarrow> ''nan'')"

definition demo_table :: "cell dataframe" where
  "demo_table = \<lparr>columns = [''id'', ''name''],
                  rows = [[Text ''1'', Text ''a''], [Text ''2'', Text ''b'']]\<rparr>"

definition demo_reply :: reply where
  "demo_reply = \<lparr>response = ''2'', last_code_executed = ''result = len(df)'',
                  call_usage = \<lparr>tokens_used = 120, dollar_cost = 0.0002\<rparr>\<rparr>"

definition answering_engine :: "cell smart_dataframe \<Rightarrow> string \<Rightarrow> error + reply" where
  "answering_engine sdf question = Inr demo_reply"

definition failing_engine :: "cell smart_dataframe \<Rightarrow> string \<Rightarrow> error + reply" where
  "failing_engine sdf question = Inl EngineError"

definition demo_world :: "cell world" where
  "demo_world =
     \<lparr>tokenizer = char_tokens, cell_text = cell_str,
      task = ''Load from local drive, <200MB'',
      dataset = Some ''data.csv'',
      read_csv = Inr demo_table, read_excel = Inl ReadError,
      col_desc = ''No'', description = [],
      llm_choice = ''OpenAI'', prompt = ''How many rows?'',
      OPENAI_API_KEY = Some ''sk-1'', GOOGLE_API_KEY = Some ''g-1'', projectid = Some ''proj'',
      chat = answering_engine,
      bucket_name = ''bucket'', blob_name = ''data.csv'',
      gcs = one_blob ''bucket'' ''data.csv'' [[''id'', ''name''], [''1'', ''a''], [''2'', ''b'']],
      stock_symbol = ''MSFT'', yahoo_prompt = ''Latest close?''\<rparr>"

section \<open>Properties of the cost estimator\<close>







section \<open>Properties of the cloud loader\<close>

lemma record_from_cases:
  "record_from header row is d =
     (if \<forall>i\<in>set is. i < length header \<and> i < length row
      then Inr (foldl (\<lambda>d i. dict_set d (header ! i) (row ! i)) d is)
      else Inl IndexError)"
  by (induction "is" arbitrary: d) auto

lemma row_record_cases:
  "row_record header row =
     (if length header \<le> length row
      then Inr (foldl (\<lambda>d i. dict_set d (header ! i) (row ! i)) [] [0..<length header])
      else Inl IndexError)"
  unfolding row_record_def record_from_cases by auto

lemma row_record_take:
  "length header \<le> length row \<Longrightarrow> row_record header (take (length header) row) = row_record header row"
  unfolding row_record_cases
  by (auto intro!: foldl_cong)

lemma row_records_cases:
  "row_records header data =
     (if \<forall>row\<in>set data. length header \<le> length row
      then Inr (map (\<lambda>row. foldl (\<lambda>d i. dict_set d (header ! i) (row ! i)) [] [0..<length header]) data)
      else Inl IndexError)"
  by (induction data) (auto simp: row_record_cases)

lemma row_records_take:
  "\<forall>row\<in>set data. length header \<le> length row \<Longrightarrow>
   row_records header (map (take (length header)) data) = row_records header data"
  by (induction data) (auto simp: row_record_take split: sum.splits)













text \<open>
  C10. Each data row is indexed at the positions of the header. When every row has at
  least as many fields as the header, the indexing stays in bounds and the load succeeds,
  with the same table as for the rows cut to the header's width (the extra fields are
  dropped); when some row is shorter than the header, the load fails with IndexError and
  gives no table.
\<close>

theorem write_read_row_indexing:
  assumes "storage pid bucket blob = Inr (header # data)"
    and "storage' pid bucket blob = Inr (header # map (take (length header)) data)"
  shows "((\<forall>row\<in>set data. length header \<le> length row) \<longrightarrow>
            (\<exists>df. write_read storage bucket blob pid = Inr df \<and>
                  write_read storage' bucket blob pid = Inr df)) \<and>
         ((\<exists>row\<in>set data. length row < length header) \<longrightarrow>
            write_read storage bucket blob pid = Inl IndexError)"
proof (intro conjI impI)
  assume long: "\<forall>row\<in>set data. length header \<le> length row"
  then obtain records where r: "row_records header data = Inr records"
    by (simp add: row_records_cases)
  with long have "row_records header (map (take (length header)) data) = Inr records"
    by (simp add: row_records_take)
  with r assms show "\<exists>df. write_read storage bucket blob pid = Inr df \<and>
                  write_read storage' bucket blob pid = Inr df"
    by (simp add: write_read_def)
next
  assume "\<exists>row\<in>set data. length row < length header"
  then have "row_records header data = Inl IndexError"
    by (force simp: row_records_cases not_le)
  with assms show "write_read storage bucket blob pid = Inl IndexError"
    by (simp add: write_read_def)
qed

theorem write_read_row_indexing_witness:
  "write_read (one_blob ''b'' ''o'' [[''id'', ''name''], [''1'', ''a'', ''extra'']]) ''b'' ''o'' (Some ''p'')
     = Inr \<lparr>columns = [''id'', ''name''], rows = [[Text ''1'', Text ''a'']]\<rparr> \<and>
   write_read (one_blob ''b'' ''o'' [[''id'', ''name''], [''1'', ''a'']]) ''b'' ''o'' (Some ''p'')
     = Inr \<lparr>columns = [''id'', ''name''], rows = [[Text ''1'', Text ''a'']]\<rparr> \<and>
   write_read (one_blob ''b'' ''o'' [[''id'', ''name''], [''1'', ''a''], [''2'']]) ''b'' ''o'' (Some ''p'')
     = Inl IndexError"
proof -
  let ?h = "[''id'', ''name'']"
  let ?long = "[[''1'', ''a'', ''extra'']]"
  let ?short = "[[''1'', ''a''], [''2'']]"
  have a: "\<exists>df. write_read (one_blob ''b'' ''o'' (?h # ?long)) ''b'' ''o'' (Some ''p'') = Inr df \<and>
             write_read (one_blob ''b'' ''o'' (?h # map (take (length ?h)) ?long)) ''b'' ''o'' (Some ''p'') = Inr df"
    using write_read_row_indexing [of "one_blob ''b'' ''o'' (?h # ?long)" "Some ''p''" "''b''" "''o''" ?h ?long
        "one_blob ''b'' ''o'' (?h # map (take (length ?h)) ?long)"]
    by (simp add: one_blob_def)
  have b: "write_read (one_blob ''b'' ''o'' (?h # ?short)) ''b'' ''o'' (Some ''p'') = Inl IndexError"
    using write_read_row_indexing [of "one_blob ''b'' ''o'' (?h # ?short)" "Some ''p''" "''b''" "''o''" ?h ?short
        "one_blob ''b'' ''o'' (?h # map (take (length ?h)) ?short)"]
    by (simp add: one_blob_def)
  have c: "write_read (one_blob ''b'' ''o'' [[''id'', ''name''], [''1'', ''a'']]) ''b'' ''o'' (Some ''p'')
     = Inr \<lparr>columns = [''id'', ''name''], rows = [[Text ''1'', Text ''a'']]\<rparr>"
    by (simp add: write_read_def one_blob_def row_record_def DataFrame_def record_row_def)
  from a b c show ?thesis by simp
qed

section \<open>Properties of the response renderer\<close>

text \<open>
  C6. For a result that has the keys \<open>type\<close> and \<open>value\<close>, \<open>parse\<close> raises nothing and makes
  exactly one Streamlit call, fixed by the tag: the tabular view for \<open>dataframe\<close>, the
  image view for \<open>plot\<close>, and plain \<^verbatim>\<open>st.write\<close> for every other tag.
\<close>

theorem parse_one_branch:
  assumes "result ''type'' = Some t" and "result ''value'' = Some v"
  shows "parse result =
           Inr [if t = Str ''dataframe'' then StDataframe v
                else if t = Str ''plot'' then StImage v
                else StWrite v]"
  using assms by (simp add: parse_def subscript_def)

theorem parse_one_branch_witness:
  "parse [''type'' \<mapsto> Str ''plot'', ''value'' \<mapsto> Str ''chart.png''] = Inr [StImage (Str ''chart.png'' :: nat pyval)] \<and>
   parse [''type'' \<mapsto> Str ''dataframe'', ''value'' \<mapsto> Obj (1::nat)] = Inr [StDataframe (Obj 1)] \<and>
   parse [''type'' \<mapsto> Str ''string'', ''value'' \<mapsto> Str ''42''] = Inr [StWrite (Str ''42'' :: nat pyval)]"
  using parse_one_branch [of "[''type'' \<mapsto> Str ''plot'', ''value'' \<mapsto> Str ''chart.png'']" "Str ''plot''" "Str ''chart.png'' :: nat pyval"]
    parse_one_branch [of "[''type'' \<mapsto> Str ''dataframe'', ''value'' \<mapsto> Obj (1::nat)]" "Str ''dataframe''" "Obj 1"]
    parse_one_branch [of "[''type'' \<mapsto> Str ''string'', ''value'' \<mapsto> Str ''42'']" "Str ''string''" "Str ''42'' :: nat pyval"]
  by simp

section \<open>Properties of the page\<close>

lemmas flow_defs = main_def local_flow_def describe_flow_def query_flow_def dispatch_def
  cloud_flow_def yahoo_flow_def then_run_def setup_page_def get_tasks_def get_llm_def
  startswith_def file_extension_def ascii_lower_def Let_def

lemmas demo_defs = demo_world_def demo_table_def demo_reply_def answering_engine_def
  failing_engine_def char_tokens_def cell_str_def one_blob_def

lemma demo_cost:
  "calculate_cost char_tokens cell_str demo_table = [WriteTokens 6, WriteCost (6 * 0.0005 / 1000)]"
  by (simp add: calculate_cost_def total_tokens_def py_sum_def iterrows_def demo_defs cost_per_token_def)

lemma head_demo_table: "head demo_table = demo_table"
  by (simp add: head_def demo_table_def)









text \<open>The three places where an exception leaves \<open>main\<close>, for any inputs.\<close>

lemma dispatch_other_backend:
  "llm_choice w \<noteq> ''OpenAI'' \<Longrightarrow>
   dispatch w sdf = ([Write ''Response''], Raised NotAContextManager)"
  by (simp add: dispatch_def then_run_def)

lemma dispatch_engine_error:
  "llm_choice w = ''OpenAI'' \<Longrightarrow> chat w sdf (prompt w) = Inl e \<Longrightarrow>
   dispatch w sdf = ([Write ''Response'', OpenAICallback, EngineChat sdf (prompt w)], Raised e)"
  by (simp add: dispatch_def then_run_def)

lemma write_read_storage_error:
  "storage pid bucket blob = Inl e \<Longrightarrow> write_read storage bucket blob pid = Inl e"
  by (simp add: write_read_def)

lemma cloud_flow_error:
  "bucket_name w \<noteq> [] \<Longrightarrow> blob_name w \<noteq> [] \<Longrightarrow>
   write_read (gcs w) (bucket_name w) (blob_name w) (projectid w) = Inl e \<Longrightarrow>
   cloud_flow w =
     ([TextInput ''Provide your Google Cloud Storage bucket name'',
       TextInput ''Provide the blob/object name''], Raised e)"
  by (simp add: cloud_flow_def then_run_def)

text \<open>
  C4. The claim is that for either backend the prompt is forwarded to the engine and its
  answer returned, with a usage record exactly for OpenAI. With OpenAI chosen the run
  calls the engine, writes its response and code, and writes the usage. With Google
  Gemini chosen (all else equal) the run ends at line 100 with an exception, before
  the engine is called: nothing is forwarded and nothing is returned.
\<close>

theorem main_backend_dispatch:
  "main demo_world =
     ([Header ''Chat with your small and large datasets!'', Markdown,
       SidebarHeader ''Select a task'', SidebarRadio ''Choose one:'', FileUploader,
       Cost (WriteTokens 6), Cost (WriteCost (6 * 0.0005 / 1000)),
       Write ''Data Preview:'', Dataframe demo_table,
       Radio ''Do you want to provide column descriptors?'',
       SidebarHeader ''Select an LLM'', SidebarRadio ''Choose a LLM:'',
       Construct (build_engine demo_world demo_table ''None''),
       TextInput ''Enter your question/prompt.'', Write ''Response'',
       OpenAICallback,
       EngineChat (build_engine demo_world demo_table ''None'') ''How many rows?'',
       Write ''2'', Divider, Write ''Under the hood, the code that was executed:'',
       Code ''result = len(df)'', Divider, Write ''Tokens used and your cost:'',
       WriteUsage \<lparr>tokens_used = 120, dollar_cost = 0.0002\<rparr>],
      Done) \<and>
   main (demo_world\<lparr>llm_choice := ''Google Gemini''\<rparr>) =
     ([Header ''Chat with your small and large datasets!'', Markdown,
       SidebarHeader ''Select a task'', SidebarRadio ''Choose one:'', FileUploader,
       Cost (WriteTokens 6), Cost (WriteCost (6 * 0.0005 / 1000)),
       Write ''Data Preview:'', Dataframe demo_table,
       Radio ''Do you want to provide column descriptors?'',
       SidebarHeader ''Select an LLM'', SidebarRadio ''Choose a LLM:'',
       Construct (build_engine (demo_world\<lparr>llm_choice := ''Google Gemini''\<rparr>) demo_table ''None''),
       TextInput ''Enter your question/prompt.'', Write ''Response''],
      Raised NotAContextManager)"
  by (simp add: flow_defs demo_cost head_demo_table demo_world_def answering_engine_def demo_reply_def)

text \<open>
  C3. The claim is that a failure of the engine during \<^verbatim>\<open>chat\<close> is caught where the call
  is made and reported. In this run the engine raises: the exception leaves \<open>main\<close>, the
  run has shown no error box, and nothing after the call is executed.
\<close>

theorem main_engine_failure_propagates:
  "main (demo_world\<lparr>chat := failing_engine\<rparr>) =
     ([Header ''Chat with your small and large datasets!'', Markdown,
       SidebarHeader ''Select a task'', SidebarRadio ''Choose one:'', FileUploader,
       Cost (WriteTokens 6), Cost (WriteCost (6 * 0.0005 / 1000)),
       Write ''Data Preview:'', Dataframe demo_table,
       Radio ''Do you want to provide column descriptors?'',
       SidebarHeader ''Select an LLM'', SidebarRadio ''Choose a LLM:'',
       Construct (build_engine (demo_world\<lparr>chat := failing_engine\<rparr>) demo_table ''None''),
       TextInput ''Enter your question/prompt.'', Write ''Response'',
       OpenAICallback,
       EngineChat (build_engine (demo_world\<lparr>chat := failing_engine\<rparr>) demo_table ''None'')
         ''How many rows?''],
      Raised EngineError)"
  by (simp add: flow_defs demo_cost head_demo_table demo_world_def failing_engine_def)

text \<open>
  C7. The claim is that a cloud load from a bucket that does not exist fails, is shown
  to the user as an error message, and does not end the run by an exception. In this run
  \<open>write_read\<close> fails with the client's not-found exception, and \<open>main\<close>, which has no
  handler on this path, lets it through: the run ends with the exception, no error box
  shown.
\<close>

theorem main_missing_bucket_propagates:
  "write_read (gcs demo_world) ''no-such-bucket'' ''data.csv'' (projectid demo_world) = Inl NotFound \<and>
   main (demo_world\<lparr>task := ''Load from Google Storage'', bucket_name := ''no-such-bucket''\<rparr>) =
     ([Header ''Chat with your small and large datasets!'', Markdown,
       SidebarHeader ''Select a task'', SidebarRadio ''Choose one:'',
       TextInput ''Provide your Google Cloud Storage bucket name'',
       TextInput ''Provide the blob/object name''],
      Raised NotFound)"
  by (simp add: flow_defs demo_world_def write_read_def one_blob_def)

text \<open>
  C5. The claim is that the engine is configured with the chosen backend, caching
  disabled, non-conversational mode and \<open>OutputParser\<close>. Every engine the local flow
  builds has the backend, \<open>conversational = False\<close> and \<open>OutputParser\<close> in its config, but
  \<open>enable_cache\<close> is not among the config's keys: the dict holding it sits in the \<open>name\<close>
  parameter, and the cache stays on. The last conjunct is a run that dispatches a query
  to such an engine.
\<close>

theorem build_engine_leaves_cache_on:
  "name (build_engine w df addon) = Some [(''enable_cache'', Flag False)] \<and>
   map_of (config (build_engine w df addon)) ''enable_cache'' = None \<and>
   cache_enabled (build_engine w df addon) \<and>
   map_of (config (build_engine w df addon)) ''llm'' =
     Some (Backend (if llm_choice w = ''OpenAI'' then OpenAI (OPENAI_API_KEY w)
                    else GoogleGemini (GOOGLE_API_KEY w))) \<and>
   map_of (config (build_engine w df addon)) ''conversational'' = Some (Flag False) \<and>
   map_of (config (build_engine w df addon)) ''response_parser'' = Some (Parser OutputParser) \<and>
   EngineChat (build_engine demo_world demo_table ''None'') ''How many rows?''
     \<in> set (fst (main demo_world))"
proof -
  have "EngineChat (build_engine demo_world demo_table ''None'') ''How many rows?''
     \<in> set (fst (main demo_world))"
    by (simp add: flow_defs demo_cost head_demo_table demo_world_def)
  then show ?thesis
    by (simp add: build_engine_def SmartDataframe_def cache_enabled_def Let_def)
qed

end
